theory Spec2Isabelle
  imports Complex_Main "HOL-Library.Multiset" "HOL-Library.Sublist" "HOL-Library.AList"
begin

section \<open>JavaScript values\<close>

text \<open>
  The service \<^verbatim>\<open>aiService.js\<close> is dynamically typed. Numbers are modelled
  as exact rationals together with the three non-finite doubles; rounding error of
  double arithmetic and the sign of zero are not modelled. A result is a sum: on the
  left a raised exception, or the mark that the language leaves the outcome to the
  implementation; on the right the value returned.
\<close>

datatype jsnum = NaN | PosInf | NegInf | Fin rat

datatype jsval =
    JUndefined
  | JNull
  | JBool bool
  | JNum jsnum
  | JStr string
  | JDate "int option"
  | JArr "jsval list"
  | JObj "(string \<times> jsval) list"

datatype failure = TypeError | ImplementationDefined

text \<open>The truthy values: those for which \<^verbatim>\<open>!v\<close> is false.\<close>

fun truthy :: "jsval \<Rightarrow> bool" where
  "truthy JUndefined = False"
| "truthy JNull = False"
| "truthy (JBool b) = b"
| "truthy (JNum NaN) = False"
| "truthy (JNum (Fin q)) = (q \<noteq> 0)"
| "truthy (JNum _) = True"
| "truthy (JStr s) = (s \<noteq> [])"
| "truthy _ = True"

fun js_add :: "jsnum \<Rightarrow> jsnum \<Rightarrow> jsnum" where
  "js_add (Fin a) (Fin b) = Fin (a + b)"
| "js_add NaN _ = NaN"
| "js_add _ NaN = NaN"
| "js_add PosInf NegInf = NaN"
| "js_add NegInf PosInf = NaN"
| "js_add PosInf _ = PosInf"
| "js_add NegInf _ = NegInf"
| "js_add _ PosInf = PosInf"
| "js_add _ NegInf = NegInf"

definition inf_of_sign :: "rat \<Rightarrow> jsnum" where
  "inf_of_sign s = (if s = 0 then NaN else if 0 < s then PosInf else NegInf)"

fun js_sign :: "jsnum \<Rightarrow> rat" where
  "js_sign (Fin a) = sgn a"
| "js_sign PosInf = 1"
| "js_sign NegInf = -1"
| "js_sign NaN = 0"

fun finite_value :: "jsnum \<Rightarrow> rat option" where
  "finite_value (Fin q) = Some q"
| "finite_value _ = None"

definition js_mul :: "jsnum \<Rightarrow> jsnum \<Rightarrow> jsnum" where
  "js_mul x y =
     (case (finite_value x, finite_value y) of
        (Some a, Some b) \<Rightarrow> Fin (a * b)
      | _ \<Rightarrow> if x = NaN \<or> y = NaN then NaN else inf_of_sign (js_sign x * js_sign y))"

text \<open>Division of one finite number by another; a zero divisor is \<^verbatim>\<open>+0\<close>.\<close>

definition js_div :: "rat \<Rightarrow> rat \<Rightarrow> jsnum" where
  "js_div a b = (if b = 0 then inf_of_sign a else Fin (a / b))"

text \<open>\<^verbatim>\<open>Math.round\<close>: the nearest integer, a half rounded up.\<close>

fun math_round :: "jsnum \<Rightarrow> jsnum" where
  "math_round (Fin a) = Fin (of_int \<lfloor>a + 1 / 2\<rfloor>)"
| "math_round x = x"

definition round_half_up :: "rat \<Rightarrow> int" where
  "round_half_up a = \<lfloor>a + 1 / 2\<rfloor>"

section \<open>Strings\<close>

text \<open>
  A string is a list of code units below 256 (Latin-1). \<^verbatim>\<open>toLowerCase\<close> maps
  \<^verbatim>\<open>A-Z\<close> and the accented capitals \<^verbatim>\<open>U+00C0-U+00DE\<close> (without the
  multiplication sign) to the letter 32 places further; \<^verbatim>\<open>\s\<close> and \<^verbatim>\<open>trim\<close>
  see tab, line feed, vertical tab, form feed, carriage return, space and the
  no-break space.
\<close>

definition to_lower :: "char \<Rightarrow> char" where
  "to_lower c =
     (let n = (of_char c :: nat)
      in if (65 \<le> n \<and> n \<le> 90) \<or> (192 \<le> n \<and> n \<le> 222 \<and> n \<noteq> 215)
         then char_of (n + 32) else c)"

definition toLowerCase :: "string \<Rightarrow> string" where
  "toLowerCase s = map to_lower s"

definition is_space :: "char \<Rightarrow> bool" where
  "is_space c \<longleftrightarrow>
     c \<in> set [CHR 0x09, CHR 0x0A, CHR 0x0B, CHR 0x0C, CHR 0x0D, CHR '' '', CHR 0xA0]"

definition is_digit :: "char \<Rightarrow> bool" where
  "is_digit c \<longleftrightarrow> c \<in> set ''0123456789''"

definition is_lower_az :: "char \<Rightarrow> bool" where
  "is_lower_az c \<longleftrightarrow> c \<in> set ''abcdefghijklmnopqrstuvwxyz''"

definition is_terminator :: "char \<Rightarrow> bool" where
  "is_terminator c \<longleftrightarrow> c \<in> set ''.!?''"

text \<open>\<^verbatim>\<open>hay.includes(needle)\<close>: the needle occurs at some position of the hay.\<close>

fun str_includes :: "string \<Rightarrow> string \<Rightarrow> bool" where
  "str_includes [] needle = (needle = [])"
| "str_includes (c # cs) needle = (prefix needle (c # cs) \<or> str_includes cs needle)"

definition trim :: "string \<Rightarrow> string" where
  "trim s = rev (dropWhile is_space (rev (dropWhile is_space s)))"

text \<open>
  \<^verbatim>\<open>s.split(/\s+/)\<close>: the pieces between the maximal runs of white space. The
  flag says that the scan is inside such a run; \<open>acc\<close> is the piece read so far.
\<close>

fun split_ws_from :: "bool \<Rightarrow> string \<Rightarrow> string \<Rightarrow> string list" where
  "split_ws_from inrun acc [] = [acc]"
| "split_ws_from inrun acc (c # cs) =
     (if is_space c
      then (if inrun then split_ws_from True acc cs else acc # split_ws_from True [] cs)
      else split_ws_from False (acc @ [c]) cs)"

definition split_ws :: "string \<Rightarrow> string list" where
  "split_ws s = split_ws_from False [] s"

text \<open>
  \<^verbatim>\<open>s.split(/(?<=[.!?])\s+/)\<close>: a run of white space separates two pieces only
  when the code unit before it is a sentence terminator.
\<close>

fun split_sentences_from :: "bool \<Rightarrow> string \<Rightarrow> string \<Rightarrow> string list" where
  "split_sentences_from inrun acc [] = [acc]"
| "split_sentences_from inrun acc (c # cs) =
     (if is_space c \<and> inrun then split_sentences_from True acc cs
      else if is_space c \<and> acc \<noteq> [] \<and> is_terminator (last acc)
      then acc # split_sentences_from True [] cs
      else split_sentences_from False (acc @ [c]) cs)"

definition split_sentences :: "string \<Rightarrow> string list" where
  "split_sentences s = split_sentences_from False [] s"

text \<open>\<^verbatim>\<open>s.replace(/\s+/g, " ")\<close>: every maximal run of white space becomes one space.\<close>

fun collapse_ws_from :: "bool \<Rightarrow> string \<Rightarrow> string" where
  "collapse_ws_from inrun [] = []"
| "collapse_ws_from inrun (c # cs) =
     (if is_space c
      then (if inrun then collapse_ws_from True cs else CHR '' '' # collapse_ws_from True cs)
      else c # collapse_ws_from False cs)"

definition collapse_ws :: "string \<Rightarrow> string" where
  "collapse_ws s = collapse_ws_from False s"

text \<open>
  \<^verbatim>\<open>s.replace(/([.!?])\s*([a-z])/g, "$1 $2")\<close>: scanning from the left, a
  terminator followed by any white space and a lower-case letter is rewritten with
  exactly one space between the two, and the scan goes on behind the letter.
\<close>

function space_after_terminator :: "string \<Rightarrow> string" where
  "space_after_terminator [] = []"
| "space_after_terminator (c # cs) =
     (if is_terminator c
      then (case dropWhile is_space cs of
              [] \<Rightarrow> c # space_after_terminator cs
            | d # ds \<Rightarrow>
                if is_lower_az d then c # CHR '' '' # d # space_after_terminator ds
                else c # space_after_terminator cs)
      else c # space_after_terminator cs)"
  by pat_completeness auto
termination
proof (relation "measure length")
  show "wf (measure length)" by simp
next
  fix c :: char and cs d ds
  assume "dropWhile is_space cs = d # ds"
  then have "length (d # ds) \<le> length cs"
    by (metis length_dropWhile_le)
  then show "(ds, c # cs) \<in> measure length" by simp
qed simp_all

section \<open>Skill extractor and match scorer\<close>

definition KNOWN_SKILLS :: "string list" where
  "KNOWN_SKILLS =
     [''javascript'', ''typescript'', ''node'', ''react'', ''vue'', ''angular'', ''express'',
      ''mongo'', ''mongodb'', ''sql'', ''postgres'', ''mysql'', ''python'', ''django'',
      ''flask'', ''java'', ''c#'', ''go'', ''ruby'', ''php'', ''aws'', ''gcp'', ''azure'',
      ''docker'', ''kubernetes'', ''terraform'', ''ci'', ''cd'', ''git'', ''testing'',
      ''jest'', ''cypress'', ''playwright'', ''html'', ''css'', ''sass'', ''less'',
      ''graphql'', ''rest'']"

text \<open>
  \<^verbatim>\<open>normalize = (text) => (text || "").toLowerCase()\<close>: a falsy argument becomes
  the empty string; a truthy value that is not a string has no \<^verbatim>\<open>toLowerCase\<close>.
\<close>

fun normalize :: "jsval \<Rightarrow> failure + string" where
  "normalize (JStr s) = Inr (toLowerCase s)"
| "normalize v = (if truthy v then Inl TypeError else Inr [])"

text \<open>
  A \<^verbatim>\<open>Set\<close> keeps its members in the order of their first insertion;
  \<^verbatim>\<open>uniq = (arr) => Array.from(new Set(arr))\<close>.
\<close>

definition set_add :: "'a list \<Rightarrow> 'a \<Rightarrow> 'a list" where
  "set_add s x = (if x \<in> set s then s else s @ [x])"

definition uniq :: "'a list \<Rightarrow> 'a list" where
  "uniq xs = foldl set_add [] xs"

definition extractJobSkills :: "jsval \<Rightarrow> failure + string list" where
  "extractJobSkills jobDescription =
     (case normalize jobDescription of
        Inl e \<Rightarrow> Inl e
      | Inr text \<Rightarrow> Inr (uniq (filter (\<lambda>skill. str_includes text skill) KNOWN_SKILLS)))"

text \<open>
  \<^verbatim>\<open>computeScore\<close> receives two arrays of strings. \<open>matched\<close> counts the members
  of the job set found in the resume set.
\<close>

definition computeScore :: "string list \<Rightarrow> string list \<Rightarrow> int" where
  "computeScore jobSkills resumeSkills =
     (if jobSkills = [] \<or> resumeSkills = [] then 0
      else
        let jobSet = uniq (map toLowerCase jobSkills);
            resumeSet = uniq (map toLowerCase resumeSkills);
            matched = length (filter (\<lambda>skill. skill \<in> set resumeSet) jobSet);
            score = round_half_up (of_nat matched / of_nat (length jobSet) * 100)
        in max 0 (min 100 score))"

section \<open>Resume remodeler\<close>

record resume =
  parsedSkills :: "string list option"
  yearsOfExperience :: int

text \<open>
  \<^verbatim>\<open>arr.findIndex(p)\<close>: the position of the first element that satisfies \<open>p\<close>,
  or \<open>-1\<close>.
\<close>

fun findIndex :: "('a \<Rightarrow> bool) \<Rightarrow> 'a list \<Rightarrow> int" where
  "findIndex p [] = -1"
| "findIndex p (x # xs) =
     (if p x then 0 else (let i = findIndex p xs in if i = -1 then -1 else i + 1))"

text \<open>The number the comparator of \<^verbatim>\<open>remodelResume\<close> assigns to a skill.\<close>

definition skill_position :: "string list \<Rightarrow> string \<Rightarrow> int" where
  "skill_position jobSkills a =
     (let ai = findIndex (\<lambda>s. toLowerCase s = toLowerCase a) jobSkills
      in if ai = -1 then 999 else ai)"

text \<open>
  Of the response of \<^verbatim>\<open>remodelResume\<close> the model keeps
  \<^verbatim>\<open>data.diff.skillsChanges\<close> (whose \<open>original\<close> and \<open>remodeled\<close> are also
  \<^verbatim>\<open>data.original.skills\<close> and \<^verbatim>\<open>data.remodeled.skills\<close>) and
  \<^verbatim>\<open>data.diff.sectionsOrder.remodeled\<close>. The summary, the experience entries and the
  texts are copied from the resume and do not touch the skills. The comparator is the
  difference of two positions, so \<^verbatim>\<open>Array.prototype.sort\<close>, which is stable,
  sorts by position.
\<close>

record skillsChanges =
  original :: "string list"
  remodeled :: "string list"
  reordered :: bool
  highlighted :: "string list"
  sectionsReordered :: "string list"

definition remodelResume :: "resume \<Rightarrow> jsval \<Rightarrow> failure + skillsChanges" where
  "remodelResume res jobDescription =
     (let originalSkills = (case parsedSkills res of Some xs \<Rightarrow> uniq xs | None \<Rightarrow> []);
          skills = originalSkills
      in case extractJobSkills jobDescription of
           Inl e \<Rightarrow> Inl e
         | Inr jobSkills \<Rightarrow>
             let orderedSkills =
                   (if jobSkills \<noteq> [] then sort_key (skill_position jobSkills) skills
                    else skills);
                 skillsReordered = (orderedSkills \<noteq> originalSkills);
                 skillsHighlighted =
                   (if skillsReordered
                    then filter (\<lambda>s. toLowerCase s \<in> set (map toLowerCase orderedSkills)) jobSkills
                    else [])
             in Inr \<lparr> original = originalSkills,
                      remodeled = orderedSkills,
                      reordered = skillsReordered,
                      highlighted = skillsHighlighted,
                      sectionsReordered =
                        (if jobSkills \<noteq> []
                         then [''summary'', ''skills (job-prioritized)'', ''experience'']
                         else [''summary'', ''skills'', ''experience'']) \<rparr>)"

section \<open>Answer improver\<close>

text \<open>The notes \<^verbatim>\<open>improveAnswer\<close> pushes on \<^verbatim>\<open>changes\<close>, in the order of the source.\<close>

datatype change =
    ReorderedSentences nat
  | CleanedUpFormatting
  | NoJobSkillsMentioned
  | HighlyRelevant
  | SafetyCheck
  | AlreadyOptimized

record improvement =
  originalText :: string
  improved :: string
  mentionedJobSkills :: "string list"
  confidence :: int
  changes :: "change list"

datatype improveResult =
    NoImprovement jsval
  | Improvement improvement

fun join :: "string \<Rightarrow> string list \<Rightarrow> string" where
  "join sep [] = []"
| "join sep [x] = x"
| "join sep (x # y # ys) = x @ sep @ join sep (y # ys)"

text \<open>
  Steps 1 to 4 of \<^verbatim>\<open>improveAnswer\<close> on the trimmed answer, in the order of the
  source. Step 1: the job skills the answer mentions.
\<close>

definition mentionedSkills :: "string \<Rightarrow> string list \<Rightarrow> string list" where
  "mentionedSkills answer jobSkills =
     (let answerLower = toLowerCase answer
      in filter (\<lambda>skill. str_includes answerLower (toLowerCase skill)) jobSkills)"

text \<open>
  Step 2: with more than one sentence, some but not all of which mention such a skill,
  those sentences move to the front; \<open>None\<close> when the text stays as it is.
\<close>

definition reorderSentences :: "string \<Rightarrow> string list \<Rightarrow> string option" where
  "reorderSentences answer mentioned =
     (let sentences = split_sentences answer;
          skillSentences =
            filter (\<lambda>s. list_ex (\<lambda>skill. str_includes (toLowerCase s) (toLowerCase skill)) mentioned)
              sentences;
          otherSentences = filter (\<lambda>s. s \<notin> set skillSentences) sentences
      in if length sentences > 1 \<and> skillSentences \<noteq> [] \<and> length skillSentences < length sentences
         then Some (join '' '' (skillSentences @ otherSentences))
         else None)"

text \<open>Step 3: trim, collapse white space, one space after a terminator.\<close>

definition cleanUp :: "string \<Rightarrow> string" where
  "cleanUp t = space_after_terminator (collapse_ws (trim t))"

text \<open>
  The confidence after steps 1, 2 and 4, from the number of mentioned skills and
  whether step 2 reordered.
\<close>

definition stepConfidence :: "nat \<Rightarrow> bool \<Rightarrow> int" where
  "stepConfidence n didReorder =
     (let confidence1 = (if n > 0 then 50 + min 20 (int n * 5) else 50);
          confidence2 = (if didReorder then confidence1 + 10 else confidence1)
      in if n = 0 then max 30 (confidence2 - 20)
         else if n \<ge> 3 then min 95 (confidence2 + 15)
         else confidence2)"

text \<open>The notes of steps 2, 3 and 4.\<close>

definition stepChanges :: "nat \<Rightarrow> bool \<Rightarrow> bool \<Rightarrow> change list" where
  "stepChanges n didReorder didClean =
     (if didReorder then [ReorderedSentences n] else [])
     @ (if didClean then [CleanedUpFormatting] else [])
     @ (if n = 0 then [NoJobSkillsMentioned] else if n \<ge> 3 then [HighlyRelevant] else [])"

text \<open>
  The mentioned skills, the rewritten text, the confidence and the notes, as they stand
  when the safety check begins.
\<close>

definition improveSteps :: "string \<Rightarrow> string list \<Rightarrow> string list \<times> string \<times> int \<times> change list" where
  "improveSteps answer jobSkills =
     (let mentioned = mentionedSkills answer jobSkills;
          moved = reorderSentences answer mentioned;
          improved3 = cleanUp (case moved of Some t \<Rightarrow> t | None \<Rightarrow> answer)
      in (mentioned, improved3,
          stepConfidence (length mentioned) (moved \<noteq> None),
          stepChanges (length mentioned) (moved \<noteq> None) (improved3 \<noteq> answer)))"

text \<open>The test of the safety check: every word of the improved text is short or original.\<close>

definition allWordsExist :: "string \<Rightarrow> string \<Rightarrow> bool" where
  "allWordsExist answer improvedText =
     (let originalWords = uniq (split_ws (toLowerCase answer));
          improvedWords = uniq (split_ws (toLowerCase improvedText))
      in list_all (\<lambda>word. length word < 2 \<or> word \<in> set originalWords) improvedWords)"

text \<open>
  The model returns the \<^verbatim>\<open>data\<close> of the response; \<open>originalText\<close> is its field
  \<^verbatim>\<open>original\<close>. The early exit returns \<^verbatim>\<open>originalAnswer || ""\<close> as the improved
  answer, with confidence 0 and no changes.
\<close>

definition improveAnswer :: "jsval \<Rightarrow> jsval \<Rightarrow> failure + improveResult" where
  "improveAnswer originalAnswer jobDescription =
     (case originalAnswer of
        JStr s \<Rightarrow>
          if s = [] then Inr (NoImprovement (JStr []))
          else
            let answer = trim s
            in (case extractJobSkills jobDescription of
                  Inl e \<Rightarrow> Inl e
                | Inr jobSkills \<Rightarrow>
                    (case improveSteps answer jobSkills of
                       (mentioned, improved3, confidence3, changes3) \<Rightarrow>
                         let ok = allWordsExist answer improved3;
                             improved4 = (if ok then improved3 else answer);
                             confidence4 = (if ok then confidence3 else max 20 (confidence3 - 30));
                             changes4 = (if ok then changes3 else changes3 @ [SafetyCheck]);
                             changes5 = (if changes4 = [] then [AlreadyOptimized] else changes4);
                             confidence5 =
                               (if changes4 = [] then min 100 (confidence4 + 10) else confidence4)
                         in Inr (Improvement
                              \<lparr> originalText = answer,
                                improved = improved4,
                                mentionedJobSkills = mentioned,
                                confidence = max 0 (min 100 confidence5),
                                changes = changes5 \<rparr>)))
      | v \<Rightarrow> Inr (NoImprovement (if truthy v then v else JStr [])))"

text \<open>
  The token-subset property as the specification words it: every white-space delimited
  token of at least two code units of the lower-cased improved text is a token of the
  lower-cased trimmed original.
\<close>

definition token_subset :: "string \<Rightarrow> string \<Rightarrow> bool" where
  "token_subset improvedText originalAnswer \<longleftrightarrow>
     (\<forall>w \<in> set (split_ws (toLowerCase improvedText)).
        2 \<le> length w \<longrightarrow> w \<in> set (split_ws (toLowerCase (trim originalAnswer))))"

text \<open>The improved answer of a result, when it is a string.\<close>

fun improvedString :: "improveResult \<Rightarrow> string option" where
  "improvedString (NoImprovement (JStr t)) = Some t"
| "improvedString (NoImprovement v) = None"
| "improvedString (Improvement i) = Some (improved i)"

section \<open>The four sub-scorers\<close>

text \<open>
  \<^verbatim>\<open>calculateSkillMatch\<close>: the resume skills are an array of strings, or missing
  (\<open>None\<close>). A job skill counts as matched when it contains a resume skill or is
  contained in one, both in lower case.
\<close>

definition calculateSkillMatch :: "jsval \<Rightarrow> string list option \<Rightarrow> failure + int" where
  "calculateSkillMatch jobDescription resumeSkills =
     (case resumeSkills of
        None \<Rightarrow> Inr 0
      | Some userSkills \<Rightarrow>
          if \<not> truthy jobDescription \<or> userSkills = [] then Inr 0
          else (case extractJobSkills jobDescription of
                  Inl e \<Rightarrow> Inl e
                | Inr jobSkills \<Rightarrow>
                    if jobSkills = [] then Inr 50
                    else
                      let matchedSkills =
                            filter (\<lambda>skill.
                                      list_ex (\<lambda>userSkill.
                                                 str_includes (toLowerCase userSkill) (toLowerCase skill)
                                                 \<or> str_includes (toLowerCase skill) (toLowerCase userSkill))
                                        userSkills)
                              jobSkills
                      in Inr (round_half_up
                                (of_nat (length matchedSkills) / of_nat (length jobSkills) * 100))))"

text \<open>
  The pattern \<^verbatim>\<open>/(\d+)\+?\s*years?\s+of\s+experience/i\<close>. Every quantifier of the
  pattern is followed by something its own code units cannot match, so the greedy choice
  is the only one: the digits, the sign and the white space are taken as far as they go.
  \<open>strip_ci\<close> takes a lower-case word off the front of a string, ignoring case.
\<close>

fun strip_ci :: "string \<Rightarrow> string \<Rightarrow> string option" where
  "strip_ci [] s = Some s"
| "strip_ci (p # ps) [] = None"
| "strip_ci (p # ps) (c # cs) = (if to_lower c = p then strip_ci ps cs else None)"

definition strip_opt :: "(char \<Rightarrow> bool) \<Rightarrow> string \<Rightarrow> string" where
  "strip_opt p s = (case s of [] \<Rightarrow> [] | c # cs \<Rightarrow> if p c then cs else s)"

text \<open>\<^verbatim>\<open>\s+\<close>: at least one code unit of white space, then all that follow.\<close>

definition strip_spaces1 :: "string \<Rightarrow> string option" where
  "strip_spaces1 s =
     (case s of [] \<Rightarrow> None | c # cs \<Rightarrow> if is_space c then Some (dropWhile is_space cs) else None)"

definition digit_value :: "char \<Rightarrow> nat" where
  "digit_value c = of_char c - 48"

text \<open>\<^verbatim>\<open>parseInt\<close> on a string of decimal digits.\<close>

definition parseInt :: "string \<Rightarrow> nat" where
  "parseInt ds = foldl (\<lambda>n c. 10 * n + digit_value c) 0 ds"

text \<open>The pattern matched at the first position of the string: the digits of group 1.\<close>

definition years_match_here :: "string \<Rightarrow> string option" where
  "years_match_here s =
     (let ds = takeWhile is_digit s
      in if ds = [] then None
         else
           let r1 = strip_opt (\<lambda>c. c = CHR ''+'') (dropWhile is_digit s);
               r2 = dropWhile is_space r1
           in (case strip_ci ''year'' r2 of
                 None \<Rightarrow> None
               | Some r3 \<Rightarrow>
                   (case strip_spaces1 (strip_opt (\<lambda>c. to_lower c = CHR ''s'') r3) of
                      None \<Rightarrow> None
                    | Some r4 \<Rightarrow>
                        (case strip_ci ''of'' r4 of
                           None \<Rightarrow> None
                         | Some r5 \<Rightarrow>
                             (case strip_spaces1 r5 of
                                None \<Rightarrow> None
                              | Some r6 \<Rightarrow>
                                  (case strip_ci ''experience'' r6 of
                                     None \<Rightarrow> None
                                   | Some r7 \<Rightarrow> Some ds))))))"

text \<open>\<^verbatim>\<open>s.match(re)\<close>: the match at the leftmost position that has one.\<close>

fun yearMatch :: "string \<Rightarrow> string option" where
  "yearMatch [] = years_match_here []"
| "yearMatch (c # cs) =
     (case years_match_here (c # cs) of Some ds \<Rightarrow> Some ds | None \<Rightarrow> yearMatch cs)"

definition requiredYears :: "string \<Rightarrow> int" where
  "requiredYears jobDescription =
     (case yearMatch jobDescription of Some ds \<Rightarrow> int (parseInt ds) | None \<Rightarrow> 0)"

text \<open>
  \<^verbatim>\<open>calculateExperienceFit\<close> calls \<^verbatim>\<open>jobDescription.match\<close> first; only a
  string has that method. The years of experience are an integer.
\<close>

definition calculateExperienceFit :: "jsval \<Rightarrow> int \<Rightarrow> failure + int" where
  "calculateExperienceFit jobDescription yearsOfExp =
     (case jobDescription of
        JStr s \<Rightarrow>
          let required = requiredYears s
          in if required = 0 then Inr 75
             else if yearsOfExp \<ge> required then Inr 100
             else if yearsOfExp \<ge> required - 1 then Inr 85
             else if yearsOfExp \<ge> required - 2 then Inr 70
             else Inr (max 30 (100 - (required - yearsOfExp) * 15))
      | _ \<Rightarrow> Inl TypeError)"

text \<open>\<^verbatim>\<open>s.split(",")\<close> and the read of an array element, \<open>None\<close> for \<^verbatim>\<open>undefined\<close>.\<close>

fun split_on :: "char \<Rightarrow> string \<Rightarrow> string list" where
  "split_on sep [] = [[]]"
| "split_on sep (c # cs) =
     (if c = sep then [] # split_on sep cs
      else (case split_on sep cs of [] \<Rightarrow> [[c]] | p # ps \<Rightarrow> (c # p) # ps))"

definition element :: "'a list \<Rightarrow> nat \<Rightarrow> 'a option" where
  "element xs i = (if i < length xs then Some (xs ! i) else None)"

definition calculateLocationMatch :: "jsval \<Rightarrow> jsval \<Rightarrow> failure + int" where
  "calculateLocationMatch jobLocation userLocation =
     (if \<not> truthy jobLocation \<or> \<not> truthy userLocation then Inr 50
      else (case normalize jobLocation of
              Inl e \<Rightarrow> Inl e
            | Inr jobLoc \<Rightarrow>
                (case normalize userLocation of
                   Inl e \<Rightarrow> Inl e
                 | Inr userLoc \<Rightarrow>
                     if str_includes jobLoc ''remote'' \<or> str_includes userLoc ''remote'' then Inr 80
                     else if jobLoc = userLoc then Inr 100
                     else if element (split_on CHR '','' jobLoc) 0 = element (split_on CHR '','' userLoc) 0
                       then Inr 100
                     else if element (split_on CHR '','' jobLoc) 1 = element (split_on CHR '','' userLoc) 1
                       then Inr 70
                     else Inr 40)))"

text \<open>
  The clock and the \<^verbatim>\<open>Date\<close> constructor belong to the engine: \<open>now\<close> is the
  current time in milliseconds, \<open>newDate v\<close> the time value of \<^verbatim>\<open>new Date(v)\<close>,
  \<open>None\<close> for an invalid date. One reading of the clock serves a whole call.
\<close>

record engine =
  now :: int
  newDate :: "jsval \<Rightarrow> int option"

definition calculateRecency :: "engine \<Rightarrow> jsval \<Rightarrow> jsnum" where
  "calculateRecency eng jobPostedDate =
     (if \<not> truthy jobPostedDate then Fin 50
      else (case newDate eng jobPostedDate of
              None \<Rightarrow> NaN
            | Some posted \<Rightarrow>
                let daysSincePosted = (now eng - posted) div (1000 * 60 * 60 * 24)
                in if daysSincePosted \<le> 7 then Fin 100
                   else if daysSincePosted \<le> 30 then Fin 85
                   else if daysSincePosted \<le> 60 then Fin 70
                   else if daysSincePosted \<le> 90 then Fin 50
                   else Fin (max 20 (100 - of_int daysSincePosted / 3))))"

section \<open>Multi-factor ranker\<close>

text \<open>
  The four factors of the ranking. The caller's overrides hold a finite number for each
  key they have (\<open>None\<close>: the key is not there), and no other key.
\<close>

record 'a factors =
  skillMatch :: 'a
  experienceFit :: 'a
  location :: 'a
  recency :: 'a

definition effectiveWeights :: "rat option factors \<Rightarrow> rat factors" where
  "effectiveWeights customWeights =
     \<lparr> skillMatch = (case skillMatch customWeights of Some w \<Rightarrow> w | None \<Rightarrow> 4 / 10),
       experienceFit = (case experienceFit customWeights of Some w \<Rightarrow> w | None \<Rightarrow> 25 / 100),
       location = (case location customWeights of Some w \<Rightarrow> w | None \<Rightarrow> 2 / 10),
       recency = (case recency customWeights of Some w \<Rightarrow> w | None \<Rightarrow> 15 / 100) \<rparr>"

definition weightSum :: "rat factors \<Rightarrow> rat" where
  "weightSum weights =
     foldl (+) 0 [skillMatch weights, experienceFit weights, location weights, recency weights]"

definition normalizedWeights :: "rat option factors \<Rightarrow> jsnum factors" where
  "normalizedWeights customWeights =
     (let weights = effectiveWeights customWeights;
          total = weightSum weights
      in \<lparr> skillMatch = js_div (skillMatch weights) total,
           experienceFit = js_div (experienceFit weights) total,
           location = js_div (location weights) total,
           recency = js_div (recency weights) total \<rparr>)"

text \<open>
  A job is an object: its own properties in their order. \<open>get_field\<close> reads a property,
  \<^verbatim>\<open>undefined\<close> when it is not there; \<^verbatim>\<open>AList.update\<close> writes one, in place when
  the key exists and at the end otherwise, as an object literal with a spread does.
\<close>

type_synonym job = "(string \<times> jsval) list"

definition get_field :: "job \<Rightarrow> string \<Rightarrow> jsval" where
  "get_field obj k = (case map_of obj k of Some v \<Rightarrow> v | None \<Rightarrow> JUndefined)"

definition or_empty :: "jsval \<Rightarrow> jsval" where
  "or_empty v = (if truthy v then v else JStr [])"

definition factors_object :: "jsnum factors \<Rightarrow> jsval" where
  "factors_object f =
     JObj [(''skillMatch'', JNum (skillMatch f)), (''experienceFit'', JNum (experienceFit f)),
           (''location'', JNum (location f)), (''recency'', JNum (recency f))]"

definition num :: "int \<Rightarrow> jsnum" where
  "num i = Fin (of_int i)"

definition totalScore :: "jsnum factors \<Rightarrow> jsnum factors \<Rightarrow> jsnum" where
  "totalScore scores weights =
     math_round
       (js_add (js_add (js_add (js_mul (skillMatch scores) (skillMatch weights))
                               (js_mul (experienceFit scores) (experienceFit weights)))
                       (js_mul (location scores) (location weights)))
               (js_mul (recency scores) (recency weights)))"

text \<open>
  The first \<^verbatim>\<open>map\<close> of \<^verbatim>\<open>rankJobs\<close> on one job. The explanation is a text built
  from the four scores, the years of experience and the job; it holds a bullet outside
  the alphabet of the model, nothing reads it and building it cannot raise, so the
  function that builds it is a parameter.
\<close>

type_synonym explainer = "jsnum factors \<Rightarrow> int \<Rightarrow> job \<Rightarrow> string"

definition scoreJob ::
  "engine \<Rightarrow> explainer \<Rightarrow> string list \<Rightarrow> int \<Rightarrow> jsval \<Rightarrow> jsnum factors \<Rightarrow> job \<Rightarrow> failure + job" where
  "scoreJob eng explain resumeSkills yearsOfExp userLocation weights jb =
     (case calculateSkillMatch (or_empty (get_field jb ''description'')) (Some resumeSkills) of
        Inl e \<Rightarrow> Inl e
      | Inr skillScore \<Rightarrow>
          (case calculateExperienceFit (or_empty (get_field jb ''description'')) yearsOfExp of
             Inl e \<Rightarrow> Inl e
           | Inr expScore \<Rightarrow>
               (case calculateLocationMatch (or_empty (get_field jb ''location'')) userLocation of
                  Inl e \<Rightarrow> Inl e
                | Inr locScore \<Rightarrow>
                    let recScore = calculateRecency eng (get_field jb ''postedDate'');
                        scores = \<lparr> skillMatch = num skillScore, experienceFit = num expScore,
                                   location = num locScore, recency = recScore \<rparr>
                    in Inr (AList.update ''rank'' (JNum (Fin 0))
                             (AList.update ''explanation'' (JStr (explain scores yearsOfExp jb))
                               (AList.update ''weights'' (factors_object weights)
                                 (AList.update ''scoreBreakdown'' (factors_object scores)
                                   (AList.update ''rankingScore'' (JNum (totalScore scores weights))
                                      jb))))))))"

text \<open>\<^verbatim>\<open>jobs.map(f)\<close> where \<open>f\<close> may raise: the first exception ends the call.\<close>

fun mapM :: "('a \<Rightarrow> failure + 'b) \<Rightarrow> 'a list \<Rightarrow> failure + 'b list" where
  "mapM f [] = Inr []"
| "mapM f (x # xs) =
     (case f x of
        Inl e \<Rightarrow> Inl e
      | Inr y \<Rightarrow> (case mapM f xs of Inl e \<Rightarrow> Inl e | Inr ys \<Rightarrow> Inr (y # ys)))"

definition rankingScore :: "job \<Rightarrow> jsnum" where
  "rankingScore jb = (case get_field jb ''rankingScore'' of JNum n \<Rightarrow> n | _ \<Rightarrow> NaN)"

text \<open>
  \<^verbatim>\<open>.sort((a, b) => b.rankingScore - a.rankingScore)\<close>. On finite scores the
  comparator is consistent and the sort, which is stable, orders by falling score. When
  a score is not finite the difference can be \<^verbatim>\<open>NaN\<close>; the language then leaves the
  order to the implementation, and the model gives no list.
\<close>

definition sortByScore :: "job list \<Rightarrow> failure + job list" where
  "sortByScore entries =
     (if list_all (\<lambda>e. finite_value (rankingScore e) \<noteq> None) entries
      then Inr (sort_key (\<lambda>e. - the (finite_value (rankingScore e))) entries)
      else Inl ImplementationDefined)"

text \<open>\<^verbatim>\<open>.map((job, index) => ({...job, rank: index + 1}))\<close>, from index \<open>i\<close> on.\<close>

fun setRanks :: "nat \<Rightarrow> job list \<Rightarrow> job list" where
  "setRanks i [] = []"
| "setRanks i (e # es) = AList.update ''rank'' (JNum (num (int i + 1))) e # setRanks (Suc i) es"

definition rankJobs ::
  "engine \<Rightarrow> explainer \<Rightarrow> job list \<Rightarrow> resume \<Rightarrow> jsval \<Rightarrow> rat option factors \<Rightarrow> failure + job list" where
  "rankJobs eng explain jobs userResume userLocation customWeights =
     (if jobs = [] then Inr []
      else
        let weights = normalizedWeights customWeights;
            resumeSkills = (case parsedSkills userResume of Some xs \<Rightarrow> xs | None \<Rightarrow> []);
            yearsOfExp = yearsOfExperience userResume
        in (case mapM (scoreJob eng explain resumeSkills yearsOfExp userLocation weights) jobs of
              Inl e \<Rightarrow> Inl e
            | Inr scored \<Rightarrow>
                (case sortByScore scored of
                   Inl e \<Rightarrow> Inl e
                 | Inr ordered \<Rightarrow> Inr (setRanks 0 ordered))))"

section \<open>Notions of the specification\<close>

text \<open>
  The location rule in the words of the specification: the part of a string before its
  first comma (the whole string when it has none) and the part after its first comma
  (none when it has no comma).
\<close>

definition before_first_comma :: "string \<Rightarrow> string" where
  "before_first_comma s = takeWhile (\<lambda>c. c \<noteq> CHR '','') s"

definition after_first_comma :: "string \<Rightarrow> string option" where
  "after_first_comma s =
     (if CHR '','' \<in> set s then Some (tl (dropWhile (\<lambda>c. c \<noteq> CHR '','') s)) else None)"

definition spec_locationMatch :: "string option \<Rightarrow> string option \<Rightarrow> int" where
  "spec_locationMatch jobLocation userLocation =
     (case (jobLocation, userLocation) of
        (Some a, Some b) \<Rightarrow>
          let j = toLowerCase a; u = toLowerCase b
          in if str_includes j ''remote'' \<or> str_includes u ''remote'' then 80
             else if j = u \<or> before_first_comma j = before_first_comma u then 100
             else if after_first_comma j \<noteq> None \<and> after_first_comma j = after_first_comma u then 70
             else 40
      | _ \<Rightarrow> 50)"


text \<open>
  The second comma-separated field of a string: what stands between its first comma and
  the next comma or the end; none when the string has no comma.
\<close>

definition second_field :: "string \<Rightarrow> string option" where
  "second_field s = map_option before_first_comma (after_first_comma s)"


text \<open>Falling order of two scores; it holds of finite scores only.\<close>

definition score_geq :: "jsnum \<Rightarrow> jsnum \<Rightarrow> bool" where
  "score_geq x y =
     (case (finite_value x, finite_value y) of (Some a, Some b) \<Rightarrow> b \<le> a | _ \<Rightarrow> False)"


text \<open>The resume skills and years \<^verbatim>\<open>rankJobs\<close> reads from the resume.\<close>

definition resumeSkillsOf :: "resume \<Rightarrow> string list" where
  "resumeSkillsOf userResume = (case parsedSkills userResume of Some xs \<Rightarrow> xs | None \<Rightarrow> [])"

text \<open>The five properties \<^verbatim>\<open>rankJobs\<close> writes, and the rest of an object.\<close>

definition rankingFields :: "string set" where
  "rankingFields = {''rankingScore'', ''scoreBreakdown'', ''weights'', ''explanation'', ''rank''}"

definition otherFields :: "job \<Rightarrow> job" where
  "otherFields jb = filter (\<lambda>p. fst p \<notin> rankingFields) jb"



text \<open>
  The ranking example of the specification: three jobs A, B and C whose composite scores
  under the default weights are 80, 80 and 60, for a candidate in Paris with five years
  of experience who knows react. Job B comes with a \<open>rank\<close> of its own and a salary.
\<close>

definition exampleEngine :: engine where
  "exampleEngine = \<lparr> now = 86400000, newDate = (\<lambda>v. case v of JDate t \<Rightarrow> t | _ \<Rightarrow> None) \<rparr>"

definition exampleResume :: resume where
  "exampleResume = \<lparr> parsedSkills = Some [''react''], yearsOfExperience = 5 \<rparr>"

definition noOverrides :: "rat option factors" where
  "noOverrides = \<lparr> skillMatch = None, experienceFit = None, location = None, recency = None \<rparr>"


definition jobB :: job where
  "jobB = [(''title'', JStr ''B''), (''rank'', JStr ''gold''),
           (''description'', JStr ''3 years of experience''),
           (''location'', JStr ''Paris''), (''postedDate'', JDate (Some 0)),
           (''salary'', JNum (Fin 100))]"


section \<open>Facts about sets kept in insertion order\<close>

lemma set_foldl_set_add: "set (foldl set_add acc xs) = set acc \<union> set xs"
  by (induction xs arbitrary: acc) (auto simp: set_add_def)


lemma foldl_set_add_distinct: "distinct (acc @ xs) \<Longrightarrow> foldl set_add acc xs = acc @ xs"
  by (induction xs arbitrary: acc) (auto simp: set_add_def)

lemma set_uniq: "set (uniq xs) = set xs"
  by (simp add: uniq_def set_foldl_set_add)


lemma uniq_distinct: "distinct xs \<Longrightarrow> uniq xs = xs"
  by (simp add: uniq_def foldl_set_add_distinct)



text \<open>The extractor accepts every string.\<close>

lemma extractJobSkills_string:
  "extractJobSkills (JStr d) =
     Inr (uniq (filter (\<lambda>skill. str_includes (toLowerCase d) skill) KNOWN_SKILLS))"
  by (simp add: extractJobSkills_def)

section \<open>Match score\<close>

lemma round_half_up_round: "round_half_up q = round q"
  by (simp add: round_half_up_def round_def)

lemma round_ratio_bounds:
  assumes "m \<le> n" "0 < n"
  shows "0 \<le> round_half_up (of_nat m / of_nat n * 100) \<and> round_half_up (of_nat m / of_nat n * 100) \<le> 100"
proof -
  let ?q = "(of_nat m / of_nat n * 100) :: rat"
  have q0: "0 \<le> ?q" by simp
  have "(of_nat m :: rat) / of_nat n \<le> 1" using assms by simp
  then have "(of_nat m :: rat) / of_nat n * 100 \<le> 1 * 100"
    by (rule mult_right_mono) simp
  then have q1: "?q \<le> 100" by simp
  have "round (0::rat) \<le> round ?q" using q0 by (rule round_mono)
  moreover have "round ?q \<le> round (100::rat)" using q1 by (rule round_mono)
  ultimately show ?thesis by (simp add: round_half_up_round)
qed



section \<open>Resume remodeler: the skill list is reordered\<close>

text \<open>
  Claim C2, amended. \<^verbatim>\<open>remodelResume\<close> first removes repeated skills, keeping the
  first occurrence of each. For every skill list and every job description the
  extractor accepts (every string is one), the remodeled skill list is a permutation of
  that de-duplicated list, which is also the \<open>original\<close> of the result: it has exactly
  the skills of the input, so none is added and none is lost, and it is a permutation
  of the input itself when the input has no repetition. When no job skill is extracted
  the order is that of the de-duplicated input.
\<close>

theorem remodelResume_permutes_uniq_skills:
  assumes skills: "parsedSkills res = Some skills"
    and js: "extractJobSkills jobDescription = Inr jobSkills"
  shows "\<exists>out. remodelResume res jobDescription = Inr out
           \<and> original out = uniq skills
           \<and> mset (remodeled out) = mset (uniq skills)
           \<and> set (remodeled out) = set skills
           \<and> (distinct skills \<longrightarrow> mset (remodeled out) = mset skills)
           \<and> (jobSkills = [] \<longrightarrow> remodeled out = uniq skills)"
  using skills js
  by (simp add: remodelResume_def Let_def set_uniq uniq_distinct)

theorem remodelResume_permutes_uniq_skills_witness:
  "(\<exists>out. remodelResume \<lparr>parsedSkills = Some [''Python'', ''React'', ''python'', ''Go'', ''React''],
                           yearsOfExperience = 3\<rparr> (JStr ''react and python'') = Inr out
         \<and> remodeled out = [''React'', ''Python'', ''python'', ''Go'']
         \<and> mset (remodeled out) = mset (uniq [''Python'', ''React'', ''python'', ''Go'', ''React'']))
   \<and> distinct [''Go'', ''Rust'']
   \<and> extractJobSkills (JStr ''We sell shoes'') = Inr []
   \<and> (\<exists>out. remodelResume \<lparr>parsedSkills = Some [''Go'', ''Rust''], yearsOfExperience = 3\<rparr>
                (JStr ''We sell shoes'') = Inr out
         \<and> remodeled out = [''Go'', ''Rust'']
         \<and> mset (remodeled out) = mset [''Go'', ''Rust''])"
proof -
  let ?res = "\<lparr>parsedSkills = Some [''Python'', ''React'', ''python'', ''Go'', ''React''],
                yearsOfExperience = 3\<rparr>"
  have s: "parsedSkills ?res = Some [''Python'', ''React'', ''python'', ''Go'', ''React'']"
    by simp
  have j: "extractJobSkills (JStr ''react and python'') = Inr [''react'', ''python'']"
    by code_simp
  have r: "remodelResume ?res (JStr ''react and python'')
           = Inr \<lparr>original = [''Python'', ''React'', ''python'', ''Go''],
                   remodeled = [''React'', ''Python'', ''python'', ''Go''],
                   reordered = True, highlighted = [''react'', ''python''],
                   sectionsReordered = [''summary'', ''skills (job-prioritized)'', ''experience'']\<rparr>"
    by code_simp
  from remodelResume_permutes_uniq_skills [OF s j] r
  have first: "\<exists>out. remodelResume ?res (JStr ''react and python'') = Inr out
         \<and> remodeled out = [''React'', ''Python'', ''python'', ''Go'']
         \<and> mset (remodeled out) = mset (uniq [''Python'', ''React'', ''python'', ''Go'', ''React''])"
    by auto
  let ?res2 = "\<lparr>parsedSkills = Some [''Go'', ''Rust''], yearsOfExperience = 3\<rparr>"
  have s2: "parsedSkills ?res2 = Some [''Go'', ''Rust'']"
    by simp
  have d2: "distinct [''Go'', ''Rust'']"
    by simp
  have j2: "extractJobSkills (JStr ''We sell shoes'') = Inr []"
    by code_simp
  have u2: "uniq [''Go'', ''Rust''] = [''Go'', ''Rust'']"
    by code_simp
  from remodelResume_permutes_uniq_skills [OF s2 j2] d2 u2
  have second: "\<exists>out. remodelResume ?res2 (JStr ''We sell shoes'') = Inr out
         \<and> remodeled out = [''Go'', ''Rust'']
         \<and> mset (remodeled out) = mset [''Go'', ''Rust'']"
    by auto
  from first d2 j2 second show ?thesis
    by (intro conjI)
qed

text \<open>
  Claim C2 as stated fails on a skill list with a repetition: the result has one
  occurrence where the input has two.
\<close>

theorem remodelResume_duplicate_counterexample:
  "remodelResume \<lparr>parsedSkills = Some [''react'', ''react''], yearsOfExperience = 0\<rparr> (JStr [])
     = Inr \<lparr>original = [''react''], remodeled = [''react''], reordered = False,
             highlighted = [],
             sectionsReordered = [''summary'', ''skills'', ''experience'']\<rparr>
   \<and> mset [''react''] \<noteq> mset [''react'', ''react'']"
proof
  show "remodelResume \<lparr>parsedSkills = Some [''react'', ''react''], yearsOfExperience = 0\<rparr> (JStr [])
     = Inr \<lparr>original = [''react''], remodeled = [''react''], reordered = False,
             highlighted = [],
             sectionsReordered = [''summary'', ''skills'', ''experience'']\<rparr>"
    by code_simp
  show "mset [''react''] \<noteq> mset [''react'', ''react'']"
    by simp
qed

section \<open>Answer improver: nothing is fabricated\<close>

lemma allWordsExist_token_subset: "allWordsExist (trim s) t \<longleftrightarrow> token_subset t s"
  by (auto simp: allWordsExist_def token_subset_def Let_def list_all_iff set_uniq not_less)

lemma token_subset_self: "token_subset (trim s) s"
  by (simp add: token_subset_def)

lemma token_subset_Nil: "token_subset [] s"
  by (simp add: token_subset_def toLowerCase_def split_ws_def)

lemma stepConfidence_range: "30 \<le> stepConfidence n r \<and> stepConfidence n r \<le> 95"
  by (auto simp: stepConfidence_def Let_def)

lemma improveSteps_confidence:
  assumes "improveSteps answer jobSkills = (mentioned, text, conf, notes)"
  shows "30 \<le> conf \<and> conf \<le> 95"
proof -
  have "\<exists>n r. conf = stepConfidence n r"
    using assms by (auto simp: improveSteps_def Let_def)
  then show ?thesis
    using stepConfidence_range by blast
qed

lemma improveAnswer_unfold:
  assumes "s \<noteq> []"
    and "extractJobSkills jobDescription = Inr jobSkills"
    and "improveSteps (trim s) jobSkills = (mentioned, text, conf, notes)"
  shows "improveAnswer (JStr s) jobDescription =
           Inr (Improvement
             \<lparr> originalText = trim s,
               improved = (if token_subset text s then text else trim s),
               mentionedJobSkills = mentioned,
               confidence =
                 (let c4 = (if token_subset text s then conf else max 20 (conf - 30));
                      n4 = (if token_subset text s then notes else notes @ [SafetyCheck])
                  in max 0 (min 100 (if n4 = [] then min 100 (c4 + 10) else c4))),
               changes =
                 (let n4 = (if token_subset text s then notes else notes @ [SafetyCheck])
                  in if n4 = [] then [AlreadyOptimized] else n4) \<rparr>)"
  using assms
  by (simp add: improveAnswer_def Let_def allWordsExist_token_subset)

text \<open>
  Claim C1. For every original answer string and every job description the extractor
  accepts (every string is one), \<^verbatim>\<open>improveAnswer\<close> returns an improved text with
  the token-subset property: each white-space delimited token of length at least 2 of
  the lower-cased improved text is a token of the lower-cased trimmed original. When the
  text produced by the reordering and formatting steps violates the property, the safety
  check returns the trimmed original instead, with the confidence lowered by 30 but not
  below 20, and notes it; when the text satisfies the property it is returned.
\<close>

theorem improveAnswer_no_fabrication:
  assumes js: "extractJobSkills jobDescription = Inr jobSkills"
    and steps: "improveSteps (trim s) jobSkills = (mentioned, text, conf, notes)"
  shows "(\<exists>r t. improveAnswer (JStr s) jobDescription = Inr r \<and> improvedString r = Some t
            \<and> token_subset t s)
       \<and> (s \<noteq> [] \<and> \<not> token_subset text s \<longrightarrow>
            improveAnswer (JStr s) jobDescription =
              Inr (Improvement \<lparr> originalText = trim s, improved = trim s,
                                 mentionedJobSkills = mentioned,
                                 confidence = max 20 (conf - 30),
                                 changes = notes @ [SafetyCheck] \<rparr>))
       \<and> (s \<noteq> [] \<and> token_subset text s \<longrightarrow>
            (\<exists>i. improveAnswer (JStr s) jobDescription = Inr (Improvement i) \<and> improved i = text))"
proof (cases "s = []")
  case True
  then show ?thesis
    by (simp add: improveAnswer_def token_subset_Nil)
next
  case False
  note unf = improveAnswer_unfold [OF False js steps]
  have bounds: "30 \<le> conf \<and> conf \<le> 95"
    using steps by (rule improveSteps_confidence)
  show ?thesis
  proof (cases "token_subset text s")
    case True
    then show ?thesis
      using False by (simp add: unf)
  next
    case no: False
    then show ?thesis
      using False bounds by (simp add: unf token_subset_self)
  qed
qed

theorem improveAnswer_no_fabrication_witness:
  "extractJobSkills (JStr []) = Inr []
   \<and> improveSteps (trim ''Hello.world'') []
       = ([], ''Hello. world'', 30, [CleanedUpFormatting, NoJobSkillsMentioned])
   \<and> \<not> token_subset ''Hello. world'' ''Hello.world''
   \<and> improveAnswer (JStr ''Hello.world'') (JStr []) =
       Inr (Improvement \<lparr> originalText = ''Hello.world'', improved = ''Hello.world'',
                          mentionedJobSkills = [], confidence = 20,
                          changes = [CleanedUpFormatting, NoJobSkillsMentioned, SafetyCheck] \<rparr>)
   \<and> extractJobSkills (JStr ''React and Node developer'') = Inr [''node'', ''react'']
   \<and> improveSteps (trim ''  I like cats. I use React daily.  It is fun! '') [''node'', ''react'']
       = ([''react''], ''I use React daily. I like cats. It is fun!'', 65,
          [ReorderedSentences 1, CleanedUpFormatting])
   \<and> token_subset ''I use React daily. I like cats. It is fun!''
         ''  I like cats. I use React daily.  It is fun! ''
   \<and> (\<exists>i. improveAnswer (JStr ''  I like cats. I use React daily.  It is fun! '')
              (JStr ''React and Node developer'') = Inr (Improvement i)
          \<and> improved i = ''I use React daily. I like cats. It is fun!'')"
proof -
  have js: "extractJobSkills (JStr []) = Inr []"
    by code_simp
  have steps: "improveSteps (trim ''Hello.world'') []
       = ([], ''Hello. world'', 30, [CleanedUpFormatting, NoJobSkillsMentioned])"
    by code_simp
  have viol: "\<not> token_subset ''Hello. world'' ''Hello.world''"
    by code_simp
  have tr: "trim ''Hello.world'' = ''Hello.world''"
    by code_simp
  have ne: "''Hello.world'' \<noteq> []"
    by simp
  have reverted: "improveAnswer (JStr ''Hello.world'') (JStr []) =
       Inr (Improvement \<lparr> originalText = ''Hello.world'', improved = ''Hello.world'',
                          mentionedJobSkills = [], confidence = 20,
                          changes = [CleanedUpFormatting, NoJobSkillsMentioned, SafetyCheck] \<rparr>)"
    using improveAnswer_no_fabrication [OF js steps, THEN conjunct2, THEN conjunct1] ne viol
    by (simp add: tr)
  have js2: "extractJobSkills (JStr ''React and Node developer'') = Inr [''node'', ''react'']"
    by code_simp
  have steps2: "improveSteps (trim ''  I like cats. I use React daily.  It is fun! '') [''node'', ''react'']
       = ([''react''], ''I use React daily. I like cats. It is fun!'', 65,
          [ReorderedSentences 1, CleanedUpFormatting])"
    by code_simp
  have ok: "token_subset ''I use React daily. I like cats. It is fun!''
         ''  I like cats. I use React daily.  It is fun! ''"
    by code_simp
  have ne2: "''  I like cats. I use React daily.  It is fun! '' \<noteq> []"
    by simp
  have kept: "\<exists>i. improveAnswer (JStr ''  I like cats. I use React daily.  It is fun! '')
              (JStr ''React and Node developer'') = Inr (Improvement i)
          \<and> improved i = ''I use React daily. I like cats. It is fun!''"
    by (rule mp [OF improveAnswer_no_fabrication [OF js2 steps2, THEN conjunct2, THEN conjunct2]])
       (intro conjI ne2 ok)
  from js steps viol reverted js2 steps2 ok kept show ?thesis
    by (intro conjI)
qed

section \<open>The years pattern\<close>





























section \<open>Experience fit\<close>



section \<open>Missing arguments\<close>

text \<open>
  On missing or empty arguments \<^verbatim>\<open>computeScore\<close>, \<^verbatim>\<open>calculateSkillMatch\<close>,
  \<^verbatim>\<open>calculateLocationMatch\<close> and \<^verbatim>\<open>calculateRecency\<close> return their neutral
  scores, and so does \<^verbatim>\<open>calculateExperienceFit\<close> on a string without the pattern.
\<close>

lemma neutral_defaults:
  "computeScore [] [''react''] = 0"
  "calculateSkillMatch JUndefined (Some [''react'']) = Inr 0"
  "calculateLocationMatch JUndefined (JStr ''Paris'') = Inr 50"
  "calculateLocationMatch (JStr ''Paris'') JUndefined = Inr 50"
  "calculateRecency eng JUndefined = Fin 50"
  "calculateExperienceFit (JStr []) 3 = Inr 75"
  by (simp_all add: calculateExperienceFit_def calculateSkillMatch_def calculateLocationMatch_def
      calculateRecency_def computeScore_def requiredYears_def years_match_here_def)

text \<open>
  Claim C9, at the input where the code departs from it. With a missing job description
  \<^verbatim>\<open>calculateExperienceFit\<close> raises a \<^verbatim>\<open>TypeError\<close>, where the claim asks for the
  neutral experience score: the function calls \<^verbatim>\<open>jobDescription.match\<close> without the
  guard its three siblings have.
\<close>

theorem calculateExperienceFit_missing_description:
  "calculateExperienceFit JUndefined 3 = Inl TypeError"
  by (simp add: calculateExperienceFit_def)

section \<open>Location fit\<close>

lemma to_lower_cases:
  "to_lower c = c \<or> (\<exists>n. to_lower c = char_of (n + 32) \<and> ((65 \<le> n \<and> n \<le> 90) \<or> (192 \<le> n \<and> n \<le> 222)) \<and> n = (of_char c :: nat))"
  unfolding to_lower_def Let_def by (cases "(65 \<le> (of_char c :: nat) \<and> (of_char c :: nat) \<le> 90) \<or> (192 \<le> (of_char c :: nat) \<and> (of_char c :: nat) \<le> 222 \<and> (of_char c :: nat) \<noteq> 215)") (simp_all, blast)

lemma char_of_not_comma:
  fixes n :: nat
  assumes "(65 \<le> n \<and> n \<le> 90) \<or> (192 \<le> n \<and> n \<le> 222)"
  shows "(char_of (n + 32) :: char) \<noteq> CHR '',''"
proof
  assume "(char_of (n + 32) :: char) = CHR '',''"
  then have "(of_char (char_of (n + 32) :: char) :: nat) = of_char CHR '',''"
    by (rule arg_cong)
  then have "(n + 32) mod 256 = 44"
    by (simp only: of_char_of) simp
  moreover have "n + 32 < 256" using assms by linarith
  ultimately have "n + 32 = 44" by simp
  with assms show False by linarith
qed

lemma to_lower_comma: "to_lower c = CHR '','' \<longleftrightarrow> c = CHR '',''"
proof
  assume h: "to_lower c = CHR '',''"
  from to_lower_cases [of c] show "c = CHR '',''"
  proof
    assume "to_lower c = c"
    with h show ?thesis by simp
  next
    assume "\<exists>n. to_lower c = char_of (n + 32) \<and> ((65 \<le> n \<and> n \<le> 90) \<or> (192 \<le> n \<and> n \<le> 222)) \<and> n = (of_char c :: nat)"
    then obtain n :: nat where "to_lower c = char_of (n + 32)" "(65 \<le> n \<and> n \<le> 90) \<or> (192 \<le> n \<and> n \<le> 222)"
      by blast
    with h char_of_not_comma [of n] show ?thesis by simp
  qed
next
  assume "c = CHR '',''"
  then show "to_lower c = CHR '',''"
    by (simp add: to_lower_def)
qed


lemma comma_toLowerCase: "CHR '','' \<in> set (toLowerCase s) \<longleftrightarrow> CHR '','' \<in> set s"
proof -
  have "CHR '','' \<in> to_lower ` set s \<longleftrightarrow> CHR '','' \<in> set s"
    by (metis (no_types) imageE image_eqI to_lower_comma)
  then show ?thesis by (simp add: toLowerCase_def)
qed

lemma split_on_head: "\<exists>ps. split_on c s = takeWhile (\<lambda>x. x \<noteq> c) s # ps"
  by (induction s) auto

lemma element_Cons_0: "element (x # xs) 0 = Some x"
  by (simp add: element_def)

lemma element_Cons_Suc: "element (x # xs) (Suc n) = element xs n"
  by (simp add: element_def)

lemma element_split_on_first: "element (split_on c s) 0 = Some (takeWhile (\<lambda>x. x \<noteq> c) s)"
proof -
  obtain ps where "split_on c s = takeWhile (\<lambda>x. x \<noteq> c) s # ps"
    using split_on_head by blast
  then show ?thesis by (simp only: element_Cons_0)
qed

lemma element_split_on_second:
  "element (split_on c s) (Suc 0) =
     (if c \<in> set s then Some (takeWhile (\<lambda>x. x \<noteq> c) (tl (dropWhile (\<lambda>x. x \<noteq> c) s))) else None)"
proof (induction s)
  case Nil
  show ?case by (simp add: element_def)
next
  case (Cons x s)
  obtain p ps where sp: "split_on c s = p # ps"
    using split_on_head by blast
  show ?case
  proof (cases "x = c")
    case True
    then show ?thesis
      by (simp add: element_Cons_Suc element_split_on_first)
  next
    case False
    have "element (split_on c (x # s)) (Suc 0) = element (split_on c s) (Suc 0)"
      using False by (simp add: sp element_Cons_Suc)
    with Cons.IH False show ?thesis by simp
  qed
qed


lemma fields_of_split:
  "element (split_on CHR '','' s) 0 = Some (before_first_comma s)"
  "element (split_on CHR '','' s) 1 = second_field s"
  by (simp_all add: element_split_on_first element_split_on_second before_first_comma_def
      second_field_def after_first_comma_def)

lemma normalize_string: "normalize (JStr s) = Inr (toLowerCase s)"
  by simp

lemma calculateLocationMatch_strings:
  assumes "a \<noteq> []" "b \<noteq> []"
  shows "calculateLocationMatch (JStr a) (JStr b) =
     Inr (if str_includes (toLowerCase a) ''remote'' \<or> str_includes (toLowerCase b) ''remote'' then 80
          else if toLowerCase a = toLowerCase b then 100
          else if before_first_comma (toLowerCase a) = before_first_comma (toLowerCase b) then 100
          else if second_field (toLowerCase a) = second_field (toLowerCase b) then 70
          else 40)"
proof -
  have t: "truthy (JStr a)" "truthy (JStr b)"
    using assms by simp_all
  show ?thesis
    unfolding calculateLocationMatch_def fields_of_split normalize_string
    using t by (simp del: truthy.simps str_includes.simps)
qed

lemma second_field_None: "second_field (toLowerCase s) = None \<longleftrightarrow> CHR '','' \<notin> set s"
  by (simp add: second_field_def after_first_comma_def comma_toLowerCase)

text \<open>
  Claim C5, amended. \<^verbatim>\<open>calculateLocationMatch\<close> returns 50 when either location is
  missing or empty. For two non-empty strings, in lower case: 80 when either contains
  ``remote''; otherwise 100 when they are equal or equal before their first comma;
  otherwise, when at least one of them has a comma, 70 if both have one and their second
  comma-separated fields are equal, and 40 if not. ``San Francisco, CA'' against
  ``San Francisco, NY'' scores 100.
\<close>

theorem calculateLocationMatch_cases:
  "(\<not> truthy jobLocation \<or> \<not> truthy userLocation \<longrightarrow>
      calculateLocationMatch jobLocation userLocation = Inr 50)
   \<and> (a \<noteq> [] \<and> b \<noteq> [] \<longrightarrow>
        (str_includes (toLowerCase a) ''remote'' \<or> str_includes (toLowerCase b) ''remote'' \<longrightarrow>
           calculateLocationMatch (JStr a) (JStr b) = Inr 80)
      \<and> (\<not> str_includes (toLowerCase a) ''remote'' \<and> \<not> str_includes (toLowerCase b) ''remote'' \<longrightarrow>
           (toLowerCase a = toLowerCase b
              \<or> before_first_comma (toLowerCase a) = before_first_comma (toLowerCase b) \<longrightarrow>
              calculateLocationMatch (JStr a) (JStr b) = Inr 100)
         \<and> (toLowerCase a \<noteq> toLowerCase b
              \<and> before_first_comma (toLowerCase a) \<noteq> before_first_comma (toLowerCase b)
              \<and> (CHR '','' \<in> set a \<or> CHR '','' \<in> set b) \<longrightarrow>
              calculateLocationMatch (JStr a) (JStr b) =
                Inr (if CHR '','' \<in> set a \<and> CHR '','' \<in> set b
                        \<and> second_field (toLowerCase a) = second_field (toLowerCase b)
                     then 70 else 40))))
   \<and> calculateLocationMatch (JStr ''San Francisco, CA'') (JStr ''San Francisco, NY'') = Inr 100"
proof (intro conjI impI)
  assume "\<not> truthy jobLocation \<or> \<not> truthy userLocation"
  then show "calculateLocationMatch jobLocation userLocation = Inr 50"
    unfolding calculateLocationMatch_def by (simp del: truthy.simps)
next
  assume "a \<noteq> [] \<and> b \<noteq> []"
    and "str_includes (toLowerCase a) ''remote'' \<or> str_includes (toLowerCase b) ''remote''"
  then show "calculateLocationMatch (JStr a) (JStr b) = Inr 80"
    by (simp add: calculateLocationMatch_strings del: str_includes.simps)
next
  assume "a \<noteq> [] \<and> b \<noteq> []"
    and "\<not> str_includes (toLowerCase a) ''remote'' \<and> \<not> str_includes (toLowerCase b) ''remote''"
    and "toLowerCase a = toLowerCase b
         \<or> before_first_comma (toLowerCase a) = before_first_comma (toLowerCase b)"
  then show "calculateLocationMatch (JStr a) (JStr b) = Inr 100"
    by (auto simp add: calculateLocationMatch_strings simp del: str_includes.simps)
next
  assume ne: "a \<noteq> [] \<and> b \<noteq> []"
    and nr: "\<not> str_includes (toLowerCase a) ''remote'' \<and> \<not> str_includes (toLowerCase b) ''remote''"
    and d: "toLowerCase a \<noteq> toLowerCase b
         \<and> before_first_comma (toLowerCase a) \<noteq> before_first_comma (toLowerCase b)
         \<and> (CHR '','' \<in> set a \<or> CHR '','' \<in> set b)"
  have eq: "calculateLocationMatch (JStr a) (JStr b) =
          Inr (if second_field (toLowerCase a) = second_field (toLowerCase b) then 70 else 40)"
    using ne nr d by (simp add: calculateLocationMatch_strings del: str_includes.simps)
  have "second_field (toLowerCase a) = second_field (toLowerCase b)
        \<longleftrightarrow> CHR '','' \<in> set a \<and> CHR '','' \<in> set b
            \<and> second_field (toLowerCase a) = second_field (toLowerCase b)"
    using d second_field_None [of a] second_field_None [of b] by metis
  then show "calculateLocationMatch (JStr a) (JStr b) =
          Inr (if CHR '','' \<in> set a \<and> CHR '','' \<in> set b
                  \<and> second_field (toLowerCase a) = second_field (toLowerCase b)
               then 70 else 40)"
    unfolding eq by simp
next
  show "calculateLocationMatch (JStr ''San Francisco, CA'') (JStr ''San Francisco, NY'') = Inr 100"
    by code_simp
qed


theorem calculateLocationMatch_cases_witness:
  "calculateLocationMatch JUndefined (JStr ''Paris'') = Inr 50
   \<and> calculateLocationMatch (JStr ''Remote (US)'') (JStr ''Paris'') = Inr 80
   \<and> calculateLocationMatch (JStr ''Paris'') (JStr ''PARIS'') = Inr 100
   \<and> calculateLocationMatch (JStr ''Austin, TX'') (JStr ''Dallas, TX'') = Inr 70
   \<and> calculateLocationMatch (JStr ''Austin, TX'') (JStr ''Paris'') = Inr 40"
proof -
  have missing: "calculateLocationMatch JUndefined (JStr ''Paris'') = Inr 50"
    using calculateLocationMatch_cases [of JUndefined "JStr ''Paris''"] by simp
  have r1: "str_includes (toLowerCase ''Remote (US)'') ''remote''"
    by code_simp
  have remote: "calculateLocationMatch (JStr ''Remote (US)'') (JStr ''Paris'') = Inr 80"
    using calculateLocationMatch_cases [of _ _ "''Remote (US)''" "''Paris''"] r1 by simp
  have n2: "\<not> str_includes (toLowerCase ''Paris'') ''remote''"
           "\<not> str_includes (toLowerCase ''PARIS'') ''remote''"
           "toLowerCase ''Paris'' = toLowerCase ''PARIS''"
    by code_simp+
  have same: "calculateLocationMatch (JStr ''Paris'') (JStr ''PARIS'') = Inr 100"
    using calculateLocationMatch_cases [of _ _ "''Paris''" "''PARIS''"] n2 by simp
  have n3: "\<not> str_includes (toLowerCase ''Austin, TX'') ''remote''"
           "\<not> str_includes (toLowerCase ''Dallas, TX'') ''remote''"
           "toLowerCase ''Austin, TX'' \<noteq> toLowerCase ''Dallas, TX''"
           "before_first_comma (toLowerCase ''Austin, TX'') \<noteq> before_first_comma (toLowerCase ''Dallas, TX'')"
           "second_field (toLowerCase ''Austin, TX'') = second_field (toLowerCase ''Dallas, TX'')"
    by code_simp+
  have region: "calculateLocationMatch (JStr ''Austin, TX'') (JStr ''Dallas, TX'') = Inr 70"
    using calculateLocationMatch_cases [of _ _ "''Austin, TX''" "''Dallas, TX''"] n3 by simp
  have n4: "toLowerCase ''Austin, TX'' \<noteq> toLowerCase ''Paris''"
           "before_first_comma (toLowerCase ''Austin, TX'') \<noteq> before_first_comma (toLowerCase ''Paris'')"
    by code_simp+
  have other: "calculateLocationMatch (JStr ''Austin, TX'') (JStr ''Paris'') = Inr 40"
    using calculateLocationMatch_cases [of _ _ "''Austin, TX''" "''Paris''"] n3(1) n2(1) n4 by simp
  from missing remote same region other show ?thesis by simp
qed

text \<open>
  Claim C5 as stated fails where a location has more than one comma: the code compares
  the second comma-separated fields, not all that follows the first comma. It also fails
  on two distinct locations without a comma, the example of the claim, which score 70:
  both second fields are \<^verbatim>\<open>undefined\<close>, and the code takes them for equal.
\<close>

theorem calculateLocationMatch_counterexample:
  "calculateLocationMatch (JStr ''Austin, TX, USA'') (JStr ''Dallas, TX, Canada'') = Inr 70
   \<and> spec_locationMatch (Some ''Austin, TX, USA'') (Some ''Dallas, TX, Canada'') = 40
   \<and> calculateLocationMatch (JStr ''Paris'') (JStr ''London'') = Inr 70
   \<and> spec_locationMatch (Some ''Paris'') (Some ''London'') = 40"
proof (intro conjI)
  show "calculateLocationMatch (JStr ''Austin, TX, USA'') (JStr ''Dallas, TX, Canada'') = Inr 70"
    by code_simp
  show "spec_locationMatch (Some ''Austin, TX, USA'') (Some ''Dallas, TX, Canada'') = 40"
    by code_simp
  show "calculateLocationMatch (JStr ''Paris'') (JStr ''London'') = Inr 70"
    by code_simp
  show "spec_locationMatch (Some ''Paris'') (Some ''London'') = 40"
    by code_simp
qed

section \<open>Weight normalization\<close>




section \<open>Score bounds\<close>

lemma computeScore_bounds: "0 \<le> computeScore js rs \<and> computeScore js rs \<le> 100"
  by (simp add: computeScore_def Let_def)

lemma calculateSkillMatch_bounds:
  "\<exists>n. calculateSkillMatch (JStr d) skills = Inr n \<and> 0 \<le> n \<and> n \<le> 100"
proof -
  obtain js where js: "extractJobSkills (JStr d) = Inr js"
    using extractJobSkills_string by blast
  have ratio: "0 \<le> round_half_up (of_nat (length (filter p js)) / of_nat (length js) * 100)
             \<and> round_half_up (of_nat (length (filter p js)) / of_nat (length js) * 100) \<le> 100"
    if "js \<noteq> []" for p
    using that by (intro round_ratio_bounds) simp_all
  show ?thesis
  proof (cases skills)
    case None
    then show ?thesis by (simp add: calculateSkillMatch_def)
  next
    case (Some userSkills)
    show ?thesis
    proof (cases "\<not> truthy (JStr d) \<or> userSkills = [] \<or> js = []")
      case True
      then show ?thesis
        using Some js by (auto simp: calculateSkillMatch_def simp del: truthy.simps)
    next
      case False
      then have "js \<noteq> []" by simp
      from ratio [OF this] False Some js show ?thesis
        by (simp add: calculateSkillMatch_def Let_def del: truthy.simps)
    qed
  qed
qed

lemma calculateExperienceFit_bounds:
  "\<exists>n. calculateExperienceFit (JStr d) years = Inr n \<and> 0 \<le> n \<and> n \<le> 100"
  by (auto simp: calculateExperienceFit_def Let_def le_max_iff_disj)

lemma calculateLocationMatch_bounds:
  "\<exists>n. calculateLocationMatch (JStr a) (JStr b) = Inr n \<and> 0 \<le> n \<and> n \<le> 100"
proof (cases "a = [] \<or> b = []")
  case True
  then show ?thesis by (auto simp: calculateLocationMatch_def)
next
  case False
  then show ?thesis by (simp add: calculateLocationMatch_strings del: str_includes.simps)
qed

lemma calculateRecency_bounds:
  assumes "\<not> truthy posted \<or> newDate eng posted \<noteq> None"
  shows "\<exists>q. calculateRecency eng posted = Fin q \<and> 20 \<le> q \<and> q \<le> 100
           \<and> (\<not> truthy posted
                \<or> (\<exists>t. newDate eng posted = Some t \<and> (now eng - t) div (1000 * 60 * 60 * 24) \<le> 90)
               \<longrightarrow> q \<in> \<int>)"
proof (cases "truthy posted")
  case False
  then show ?thesis by (simp add: calculateRecency_def)
next
  case True
  with assms obtain t where t: "newDate eng posted = Some t" by auto
  let ?d = "(now eng - t) div (1000 * 60 * 60 * 24)"
  show ?thesis
  proof (cases "?d \<le> 90")
    case True
    then show ?thesis
      using \<open>truthy posted\<close> t by (simp add: calculateRecency_def Let_def)
  next
    case False
    then have "(90::rat) < of_int ?d" by linarith
    then have "(100::rat) - of_int ?d / 3 \<le> 100" by simp
    then have "max 20 ((100::rat) - of_int ?d / 3) \<le> 100" by simp
    then show ?thesis
      using False \<open>truthy posted\<close> t by (simp add: calculateRecency_def Let_def)
  qed
qed


text \<open>
  Claim C4, amended. \<^verbatim>\<open>computeScore\<close>, \<^verbatim>\<open>calculateSkillMatch\<close>,
  \<^verbatim>\<open>calculateExperienceFit\<close> (with whole years) and \<^verbatim>\<open>calculateLocationMatch\<close>
  return an integer between 0 and 100 on all strings and skill lists.
  \<^verbatim>\<open>calculateRecency\<close>, on a posted date that is missing or valid, returns a number
  between 20 and 100, which is an integer when the date is missing or at most 90 days
  old.
\<close>

theorem score_bounds:
  "(0 \<le> computeScore jobSkills resumeSkills \<and> computeScore jobSkills resumeSkills \<le> 100)
   \<and> (\<exists>n. calculateSkillMatch (JStr d) skills = Inr n \<and> 0 \<le> n \<and> n \<le> 100)
   \<and> (\<exists>n. calculateExperienceFit (JStr d) years = Inr n \<and> 0 \<le> n \<and> n \<le> 100)
   \<and> (\<exists>n. calculateLocationMatch (JStr a) (JStr b) = Inr n \<and> 0 \<le> n \<and> n \<le> 100)
   \<and> (\<not> truthy posted \<or> newDate eng posted \<noteq> None \<longrightarrow>
        (\<exists>q. calculateRecency eng posted = Fin q \<and> 20 \<le> q \<and> q \<le> 100
           \<and> (\<not> truthy posted
                \<or> (\<exists>t. newDate eng posted = Some t \<and> (now eng - t) div (1000 * 60 * 60 * 24) \<le> 90)
               \<longrightarrow> q \<in> \<int>)))"
  using computeScore_bounds calculateSkillMatch_bounds calculateExperienceFit_bounds
    calculateLocationMatch_bounds calculateRecency_bounds
  by blast

theorem score_bounds_witness:
  "newDate \<lparr> now = 10 * 86400000, newDate = (\<lambda>v. case v of JDate t \<Rightarrow> t | _ \<Rightarrow> None) \<rparr>
     (JDate (Some 0)) \<noteq> None
   \<and> calculateRecency \<lparr> now = 10 * 86400000, newDate = (\<lambda>v. case v of JDate t \<Rightarrow> t | _ \<Rightarrow> None) \<rparr>
        (JDate (Some 0)) = Fin 85
   \<and> calculateSkillMatch (JStr ''react node sql'') (Some [''Node.js'']) = Inr 33"
proof -
  let ?eng = "\<lparr> now = 10 * 86400000, newDate = (\<lambda>v. case v of JDate t \<Rightarrow> t | _ \<Rightarrow> None) \<rparr>"
  have valid: "newDate ?eng (JDate (Some 0)) \<noteq> None"
    by simp
  have rec: "calculateRecency ?eng (JDate (Some 0)) = Fin 85"
    by (simp add: calculateRecency_def)
  have skill: "calculateSkillMatch (JStr ''react node sql'') (Some [''Node.js'']) = Inr 33"
    by code_simp
  from score_bounds [of _ _ "''react node sql''" "Some [''Node.js'']" _ _ _ "JDate (Some 0)" ?eng]
    valid rec skill
  show ?thesis by simp
qed

text \<open>
  Claim C4 as stated fails for \<^verbatim>\<open>calculateRecency\<close>: 91 days after the posting the
  score is \<open>100 - 91 / 3\<close>, which is not an integer.
\<close>

theorem calculateRecency_fraction_counterexample:
  "calculateRecency \<lparr> now = 91 * 86400000, newDate = (\<lambda>v. case v of JDate t \<Rightarrow> t | _ \<Rightarrow> None) \<rparr>
     (JDate (Some 0)) = Fin (209 / 3)
   \<and> (209 / 3 :: rat) \<notin> \<int>"
proof
  show "calculateRecency \<lparr> now = 91 * 86400000, newDate = (\<lambda>v. case v of JDate t \<Rightarrow> t | _ \<Rightarrow> None) \<rparr>
     (JDate (Some 0)) = Fin (209 / 3)"
    by (simp add: calculateRecency_def)
  show "(209 / 3 :: rat) \<notin> \<int>"
  proof
    assume "(209 / 3 :: rat) \<in> \<int>"
    then obtain n :: int where "(209 / 3 :: rat) = of_int n"
      by (rule Ints_cases)
    then have "(of_int 209 :: rat) = of_int (3 * n)"
      by simp
    then have "(209 :: int) = 3 * n"
      by (simp only: of_int_eq_iff)
    then show False by presburger
  qed
qed

section \<open>Ranking\<close>

lemma otherFields_update:
  "k \<in> rankingFields \<Longrightarrow> otherFields (AList.update k v jb) = otherFields jb"
  by (induction jb) (auto simp: otherFields_def)

lemma get_field_update:
  "get_field (AList.update k v jb) k' = (if k' = k then v else get_field jb k')"
  by (simp add: get_field_def update_conv')

lemma get_field_otherFields:
  "k \<notin> rankingFields \<Longrightarrow> get_field (otherFields jb) k = get_field jb k"
  by (induction jb) (auto simp: otherFields_def get_field_def)

lemma keys_update: "fst ` set (AList.update k v jb) = insert k (fst ` set jb)"
  by (simp add: dom_update)

lemma mapM_Inr:
  "mapM f xs = Inr ys \<Longrightarrow> list_all2 (\<lambda>x y. f x = Inr y) xs ys"
  by (induction xs arbitrary: ys) (auto split: sum.splits)


lemma scoreJob_result:
  assumes "scoreJob eng explain resumeSkills yearsOfExp userLocation weights jb = Inr e"
  shows "otherFields e = otherFields jb
       \<and> rankingFields \<subseteq> fst ` set e
       \<and> get_field e ''rank'' = JNum (Fin 0)"
proof -
  from assms obtain t x sb w where
    e: "e = AList.update ''rank'' (JNum (Fin 0))
             (AList.update ''explanation'' x
               (AList.update ''weights'' w
                 (AList.update ''scoreBreakdown'' sb
                   (AList.update ''rankingScore'' t jb))))"
    by (auto simp: scoreJob_def Let_def split: sum.splits)
  have o: "otherFields e = otherFields jb"
    unfolding e by (simp add: otherFields_update rankingFields_def)
  have k: "rankingFields \<subseteq> fst ` set e"
    unfolding e rankingFields_def keys_update by blast
  have r: "get_field e ''rank'' = JNum (Fin 0)"
    unfolding e by (simp add: get_field_update)
  from o k r show ?thesis by simp
qed

lemma setRanks_length: "length (setRanks i es) = length es"
  by (induction es arbitrary: i) auto


lemma setRanks_otherFields: "map otherFields (setRanks i es) = map otherFields es"
  by (induction es arbitrary: i) (auto simp: otherFields_update rankingFields_def)



lemma setRanks_keys:
  "\<forall>e\<in>set es. S \<subseteq> fst ` set e \<Longrightarrow> \<forall>e\<in>set (setRanks i es). S \<subseteq> fst ` set e"
  by (induction es arbitrary: i) (auto simp: keys_update)







lemma sortByScore_Inr:
  assumes "sortByScore es = Inr ordered"
  shows "list_all (\<lambda>e. finite_value (rankingScore e) \<noteq> None) es"
    and "ordered = sort_key (\<lambda>e. - the (finite_value (rankingScore e))) es"
  using assms by (auto simp: sortByScore_def split: if_splits)


lemma finite_value_Some: "finite_value x = Some q \<longleftrightarrow> x = Fin q"
  by (cases x) auto

lemma key_le_score_geq:
  assumes "finite_value x \<noteq> None" "finite_value y \<noteq> None"
  shows "- the (finite_value x) \<le> - the (finite_value y) \<longleftrightarrow> score_geq x y"
  using assms by (auto simp: score_geq_def)

lemma key_eq_score:
  assumes "finite_value x \<noteq> None"
  shows "- the (finite_value x) = - r \<longleftrightarrow> x = Fin r"
  using assms by (auto simp: finite_value_Some)

lemma sortByScore_properties:
  assumes "sortByScore es = Inr ordered"
  shows "mset ordered = mset es"
    and "sorted_wrt score_geq (map rankingScore ordered)"
    and "filter (\<lambda>e. rankingScore e = q) ordered = filter (\<lambda>e. rankingScore e = q) es"
proof -
  let ?key = "\<lambda>e. - the (finite_value (rankingScore e))"
  note fin = sortByScore_Inr(1) [OF assms] and ord = sortByScore_Inr(2) [OF assms]
  have finD: "finite_value (rankingScore e) \<noteq> None" if "e \<in> set es" for e
    using fin that by (simp add: list_all_iff)
  show "mset ordered = mset es"
    unfolding ord by simp
  have "sorted (map ?key ordered)"
    unfolding ord by (rule sorted_sort_key)
  then have "sorted_wrt (\<lambda>a b. ?key a \<le> ?key b) ordered"
    by (simp add: sorted_map)
  then have "sorted_wrt (\<lambda>a b. score_geq (rankingScore a) (rankingScore b)) ordered"
  proof (rule sorted_wrt_mono_rel [rotated])
    fix a b
    assume "a \<in> set ordered" "b \<in> set ordered" "?key a \<le> ?key b"
    then show "score_geq (rankingScore a) (rankingScore b)"
      using finD key_le_score_geq unfolding ord by simp
  qed
  then show "sorted_wrt score_geq (map rankingScore ordered)"
    by (simp add: sorted_wrt_map)
  show "filter (\<lambda>e. rankingScore e = q) ordered = filter (\<lambda>e. rankingScore e = q) es"
  proof (cases "finite_value q")
    case None
    have "filter (\<lambda>e. rankingScore e = q) xs = []" if "set xs \<subseteq> set es" for xs
      using that finD None by (fastforce simp: filter_empty_conv)
    then show ?thesis unfolding ord by simp
  next
    case (Some r)
    then have q: "q = Fin r" by (simp add: finite_value_Some)
    have same: "filter (\<lambda>e. rankingScore e = q) xs = filter (\<lambda>e. ?key e = - r) xs"
      if "set xs \<subseteq> set es" for xs
    proof (rule filter_cong [OF refl])
      fix e assume "e \<in> set xs"
      then have "finite_value (rankingScore e) \<noteq> None" using that finD by blast
      then show "(rankingScore e = q) = (?key e = - r)"
        unfolding q using key_eq_score [of "rankingScore e" r] by simp
    qed
    have "filter (\<lambda>e. rankingScore e = q) ordered = filter (\<lambda>e. ?key e = - r) (sort_key ?key es)"
      unfolding ord by (rule same) simp
    also have "\<dots> = filter (\<lambda>e. ?key e = - r) es"
      by (rule sort_key_stable)
    also have "\<dots> = filter (\<lambda>e. rankingScore e = q) es"
      by (rule same [symmetric]) simp
    finally show ?thesis .
  qed
qed

lemma rankJobs_Inr:
  assumes "rankJobs eng explain jobs userResume userLocation customWeights = Inr out"
  shows "\<exists>scored ordered.
           mapM (scoreJob eng explain (resumeSkillsOf userResume) (yearsOfExperience userResume)
                   userLocation (normalizedWeights customWeights)) jobs = Inr scored
           \<and> sortByScore scored = Inr ordered
           \<and> out = setRanks 0 ordered"
proof (cases "jobs = []")
  case True
  then show ?thesis
    using assms by (simp add: rankJobs_def sortByScore_def)
next
  case False
  then show ?thesis
    using assms
    by (auto simp: rankJobs_def Let_def resumeSkillsOf_def split: sum.splits)
qed

lemma mapM_scoreJob:
  assumes "mapM (scoreJob eng explain rs y ul w) jobs = Inr scored"
  shows "length scored = length jobs"
    and "map otherFields scored = map otherFields jobs"
    and "\<forall>e\<in>set scored. rankingFields \<subseteq> fst ` set e"
proof -
  have rel: "list_all2 (\<lambda>jb e. scoreJob eng explain rs y ul w jb = Inr e) jobs scored"
    using assms by (rule mapM_Inr)
  then show "length scored = length jobs"
    by (simp add: list_all2_lengthD)
  from rel have "list_all2 (\<lambda>jb e. otherFields e = otherFields jb
                               \<and> rankingFields \<subseteq> fst ` set e) jobs scored"
    by (rule list_all2_mono) (use scoreJob_result in blast)
  then show "map otherFields scored = map otherFields jobs"
    and "\<forall>e\<in>set scored. rankingFields \<subseteq> fst ` set e"
    by (induction rule: list_all2_induct) auto
qed








text \<open>
  Claim C10. Every entry \<^verbatim>\<open>rankJobs\<close> returns is a job of the input with its
  properties outside \<open>rankingScore\<close>, \<open>scoreBreakdown\<close>, \<open>weights\<close>, \<open>explanation\<close> and
  \<open>rank\<close> unchanged, in their order, and every job of the input is returned so; the
  five properties are present in every entry.
\<close>

theorem rankJobs_frame:
  assumes "rankJobs eng explain jobs userResume userLocation customWeights = Inr out"
  shows "length out = length jobs
       \<and> mset (map otherFields out) = mset (map otherFields jobs)
       \<and> (\<forall>e\<in>set out. rankingFields \<subseteq> fst ` set e)
       \<and> (\<forall>e\<in>set out. \<exists>jb\<in>set jobs. \<forall>k. k \<notin> rankingFields \<longrightarrow> get_field e k = get_field jb k)
       \<and> (\<forall>jb\<in>set jobs. \<exists>e\<in>set out. \<forall>k. k \<notin> rankingFields \<longrightarrow> get_field e k = get_field jb k)"
proof -
  obtain scored ordered where
    sc: "mapM (scoreJob eng explain (resumeSkillsOf userResume) (yearsOfExperience userResume)
                 userLocation (normalizedWeights customWeights)) jobs = Inr scored"
    and so: "sortByScore scored = Inr ordered"
    and out: "out = setRanks 0 ordered"
    using rankJobs_Inr [OF assms] by blast
  have perm: "mset ordered = mset scored"
    using so by (rule sortByScore_properties(1))
  then have "size (mset ordered) = size (mset scored)" by simp
  then have len: "length out = length jobs"
    unfolding out using mapM_scoreJob(1) [OF sc] by (simp add: setRanks_length)
  have "mset (map otherFields out) = image_mset otherFields (mset ordered)"
    unfolding out by (simp add: setRanks_otherFields)
  also have "\<dots> = mset (map otherFields scored)"
    unfolding perm by simp
  also have "\<dots> = mset (map otherFields jobs)"
    by (simp only: mapM_scoreJob(2) [OF sc])
  finally have frame: "mset (map otherFields out) = mset (map otherFields jobs)" .
  have "set ordered = set scored"
    using perm by (rule mset_eq_setD)
  then have "\<forall>e\<in>set ordered. rankingFields \<subseteq> fst ` set e"
    using mapM_scoreJob(3) [OF sc] by simp
  then have keys: "\<forall>e\<in>set out. rankingFields \<subseteq> fst ` set e"
    unfolding out by (rule setRanks_keys)
  have sets: "otherFields ` set out = otherFields ` set jobs"
    using mset_eq_setD [OF frame] by simp
  have same: "\<forall>k. k \<notin> rankingFields \<longrightarrow> get_field e k = get_field jb k"
    if "otherFields e = otherFields jb" for e jb
    using that get_field_otherFields by metis
  have fwd: "\<forall>e\<in>set out. \<exists>jb\<in>set jobs. \<forall>k. k \<notin> rankingFields \<longrightarrow> get_field e k = get_field jb k"
  proof
    fix e assume "e \<in> set out"
    then have "otherFields e \<in> otherFields ` set jobs" using sets by blast
    then obtain jb where "jb \<in> set jobs" "otherFields e = otherFields jb" by blast
    then show "\<exists>jb\<in>set jobs. \<forall>k. k \<notin> rankingFields \<longrightarrow> get_field e k = get_field jb k"
      using same by blast
  qed
  have bwd: "\<forall>jb\<in>set jobs. \<exists>e\<in>set out. \<forall>k. k \<notin> rankingFields \<longrightarrow> get_field e k = get_field jb k"
  proof
    fix jb assume "jb \<in> set jobs"
    then have "otherFields jb \<in> otherFields ` set out" using sets by blast
    then obtain e where "e \<in> set out" "otherFields e = otherFields jb" by auto
    then show "\<exists>e\<in>set out. \<forall>k. k \<notin> rankingFields \<longrightarrow> get_field e k = get_field jb k"
      using same by blast
  qed
  from len frame keys fwd bwd show ?thesis by blast
qed

theorem rankJobs_frame_witness:
  "rankJobs exampleEngine (\<lambda>scores years jb. ''text'') [jobB] exampleResume (JStr ''Paris'') noOverrides
     = Inr [[(''title'', JStr ''B''), (''rank'', JNum (Fin 1)),
             (''description'', JStr ''3 years of experience''),
             (''location'', JStr ''Paris''), (''postedDate'', JDate (Some 0)),
             (''salary'', JNum (Fin 100)),
             (''rankingScore'', JNum (Fin 80)),
             (''scoreBreakdown'',
                JObj [(''skillMatch'', JNum (Fin 50)), (''experienceFit'', JNum (Fin 100)),
                      (''location'', JNum (Fin 100)), (''recency'', JNum (Fin 100))]),
             (''weights'',
                JObj [(''skillMatch'', JNum (Fin (2 / 5))), (''experienceFit'', JNum (Fin (1 / 4))),
                      (''location'', JNum (Fin (1 / 5))), (''recency'', JNum (Fin (3 / 20)))]),
             (''explanation'', JStr ''text'')]]
   \<and> otherFields [(''title'', JStr ''B''), (''rank'', JNum (Fin 1)),
             (''description'', JStr ''3 years of experience''),
             (''location'', JStr ''Paris''), (''postedDate'', JDate (Some 0)),
             (''salary'', JNum (Fin 100)),
             (''rankingScore'', JNum (Fin 80)),
             (''scoreBreakdown'',
                JObj [(''skillMatch'', JNum (Fin 50)), (''experienceFit'', JNum (Fin 100)),
                      (''location'', JNum (Fin 100)), (''recency'', JNum (Fin 100))]),
             (''weights'',
                JObj [(''skillMatch'', JNum (Fin (2 / 5))), (''experienceFit'', JNum (Fin (1 / 4))),
                      (''location'', JNum (Fin (1 / 5))), (''recency'', JNum (Fin (3 / 20)))]),
             (''explanation'', JStr ''text'')]
     = otherFields jobB"
proof -
  let ?e = "[(''title'', JStr ''B''), (''rank'', JNum (Fin 1)),
             (''description'', JStr ''3 years of experience''),
             (''location'', JStr ''Paris''), (''postedDate'', JDate (Some 0)),
             (''salary'', JNum (Fin 100)),
             (''rankingScore'', JNum (Fin 80)),
             (''scoreBreakdown'',
                JObj [(''skillMatch'', JNum (Fin 50)), (''experienceFit'', JNum (Fin 100)),
                      (''location'', JNum (Fin 100)), (''recency'', JNum (Fin 100))]),
             (''weights'',
                JObj [(''skillMatch'', JNum (Fin (2 / 5))), (''experienceFit'', JNum (Fin (1 / 4))),
                      (''location'', JNum (Fin (1 / 5))), (''recency'', JNum (Fin (3 / 20)))]),
             (''explanation'', JStr ''text'')]"
  have run: "rankJobs exampleEngine (\<lambda>scores years jb. ''text'') [jobB] exampleResume
               (JStr ''Paris'') noOverrides = Inr [?e]"
    by code_simp
  have "mset (map otherFields [?e]) = mset (map otherFields [jobB])"
    by (rule rankJobs_frame [OF run, THEN conjunct2, THEN conjunct1])
  then have fr: "otherFields ?e = otherFields jobB"
    by (simp only: list.map mset.simps add_mset_eq_single)
  show ?thesis by (rule conjI [OF run fr])
qed

end
